theory Spec2Isabelle
  imports Main "HOL-Library.Word"
begin

section \<open>NetworkManager.go: the D-Bus binding of the NetworkManager root object\<close>

text \<open>
  The file defines the methods of \<^verbatim>\<open>networkManager\<close>: \<^verbatim>\<open>GetDevices\<close>,
  \<^verbatim>\<open>GetState\<close>, \<^verbatim>\<open>GetActiveConnections\<close>, \<^verbatim>\<open>ActivateWirelessConnection\<close>, the two
  definitions of \<^verbatim>\<open>AddAndActivateWirelessConnection\<close>, \<^verbatim>\<open>Subscribe\<close>, \<^verbatim>\<open>Unsubscribe\<close>
  and \<^verbatim>\<open>MarshalJSON\<close>. Every one of them is a few statements around calls of
  \<^verbatim>\<open>dbusBase\<close>, of the handle constructors and of the godbus connection, none of which
  is defined in NetworkManager.go.

  A Go result \<^verbatim>\<open>(v, err)\<close> is a pair whose second component is \<open>None\<close> for a nil
  error; a value of interface, slice or channel type is an option, \<open>None\<close> for nil.
  A method with a pointer receiver takes the receiver and returns it updated.
\<close>

subsection \<open>Constants\<close>

definition NetworkManagerInterface :: string where
  "NetworkManagerInterface = ''org.freedesktop.NetworkManager''"

definition NetworkManagerObjectPath :: string where
  "NetworkManagerObjectPath = ''/org/freedesktop/NetworkManager''"

definition NetworkManagerGetDevices :: string where
  "NetworkManagerGetDevices = NetworkManagerInterface @ ''.GetDevices''"

definition NetworkManagerActivateConnection :: string where
  "NetworkManagerActivateConnection = NetworkManagerInterface @ ''.ActivateConnection''"

definition NetworkManagerAddAndActivateConnection :: string where
  "NetworkManagerAddAndActivateConnection =
     NetworkManagerInterface @ ''.AddAndActivateConnection''"

definition NetworkManagerPropertyState :: string where
  "NetworkManagerPropertyState = NetworkManagerInterface @ ''.State''"

definition NetworkManagerPropertyActiveConnection :: string where
  "NetworkManagerPropertyActiveConnection = NetworkManagerInterface @ ''.ActiveConnections''"

subsection \<open>Types declared outside NetworkManager.go\<close>

type_synonym ObjectPath = string

text \<open>Go's \<^verbatim>\<open>error\<close>: an opaque value carrying a message.\<close>

datatype error = Error string

text \<open>
  Modelled from the spec: the declaration of \<^verbatim>\<open>NmState\<close> and of its constants is not in
  NetworkManager.go. The spec (section 3) has it as integer codes mirrored from the
  daemon's state property; \<^verbatim>\<open>GetState\<close> converts the \<^verbatim>\<open>uint32\<close> it read with
  \<^verbatim>\<open>NmState(r)\<close>, so an \<^verbatim>\<open>NmState\<close> is the 32-bit code it was converted from. The spec
  (section 8) names the code 0 as unknown and the code 70 as connected; the defined
  set is the daemon's published one, the multiples of ten from 0 to 70.
\<close>

datatype NmState = NmState (code: "32 word")

definition NmStateUnknown :: NmState where
  "NmStateUnknown = NmState 0"

definition NmStateConnectedGlobal :: NmState where
  "NmStateConnectedGlobal = NmState 70"

definition NmState_defined :: "32 word list" where
  "NmState_defined = [0, 10, 20, 30, 40, 50, 60, 70]"

text \<open>
  Modelled from the spec: the handle types \<^verbatim>\<open>Connection\<close>, \<^verbatim>\<open>Device\<close>,
  \<^verbatim>\<open>AccessPoint\<close> and \<^verbatim>\<open>ActiveConnection\<close> are declared outside NetworkManager.go.
  By the spec (section 3) each wraps the object path of a remote object, and identity is
  the path; \<^verbatim>\<open>GetPath\<close> reads it.
\<close>

datatype Connection = Connection (Connection_GetPath: ObjectPath)
datatype Device = Device (Device_GetPath: ObjectPath)
datatype AccessPoint = AccessPoint (AccessPoint_GetPath: ObjectPath)
datatype ActiveConnection = ActiveConnection (ActiveConnection_GetPath: ObjectPath)

text \<open>
  The connection profile \<^verbatim>\<open>map[string]map[string]interface{}\<close>: section, key, value.
\<close>

datatype setting = SString string | SUint32 "32 word" | SBool bool

type_synonym profile = "string \<rightharpoonup> (string \<rightharpoonup> setting)"

text \<open>
  The value \<^verbatim>\<open>MarshalJSON\<close> hands to \<^verbatim>\<open>json.Marshal\<close>: a map with the two keys
  \<^verbatim>\<open>NetworkState\<close> and \<^verbatim>\<open>Devices\<close>.
\<close>

record snapshot =
  NetworkState :: string
  Devices :: "Device option list option"

subsection \<open>What the file calls and does not define\<close>

text \<open>
  The methods of \<^verbatim>\<open>dbusBase\<close> (\<^verbatim>\<open>call\<close>, \<^verbatim>\<open>call2\<close>, \<^verbatim>\<open>callError2\<close>,
  \<^verbatim>\<open>getUint32Property\<close>, \<^verbatim>\<open>getSliceObjectProperty\<close>), \<^verbatim>\<open>NmState.String\<close> and
  \<^verbatim>\<open>json.Marshal\<close> are parameters: a record of what each of them answers. A call
  that stores its reply through a pointer and returns an error is a sum, \<open>Inl\<close> the
  error: NetworkManager.go never reads the pointed-to variable after an error.
  \<^verbatim>\<open>call\<close> is used at two reply types, a slice of paths and one path.
  The two fault fields say for which paths the handle constructors fail.
\<close>

record env =
  call_ObjectPaths :: "string \<Rightarrow> error + ObjectPath list"
  call_ObjectPath :: "string \<Rightarrow> ObjectPath \<Rightarrow> ObjectPath \<Rightarrow> ObjectPath \<Rightarrow> error + ObjectPath"
  call2_reply :: "string \<Rightarrow> profile \<Rightarrow> ObjectPath \<Rightarrow> ObjectPath \<Rightarrow> error + ObjectPath \<times> ObjectPath"
  callError2_reply :: "string \<Rightarrow> profile \<Rightarrow> ObjectPath \<Rightarrow> ObjectPath \<Rightarrow> error + ObjectPath \<times> ObjectPath"
  getUint32Property_reply :: "string \<Rightarrow> error + 32 word"
  getSliceObjectProperty_reply :: "string \<Rightarrow> error + ObjectPath list"
  DeviceFactory_fault :: "ObjectPath \<Rightarrow> error option"
  NewActiveConnection_fault :: "ObjectPath \<Rightarrow> error option"
  NmState_String :: "NmState \<Rightarrow> string"
  json_Marshal :: "snapshot \<Rightarrow> string option \<times> error option"

subsection \<open>The receiver\<close>

text \<open>
  A channel is its address; the channels made so far are \<open>heap\<close>, and
  \<^verbatim>\<open>make(chan *dbus.Signal, 10)\<close> allocates the next address. A Go channel is closed
  only by \<^verbatim>\<open>close\<close>.
\<close>

type_synonym chan = nat

datatype chan_state = Chan (capacity: nat) (is_closed: bool)

text \<open>
  \<^verbatim>\<open>networkManager\<close> embeds \<^verbatim>\<open>dbusBase\<close> and adds \<^verbatim>\<open>sigChan\<close>. Of \<^verbatim>\<open>dbusBase\<close> the
  model keeps the answers of the far side (\<open>env\<close>), the requests sent so far, oldest
  first (\<open>calls\<close>), the path namespaces registered with \<^verbatim>\<open>subscribeNamespace\<close>
  (\<open>matches\<close>), and the channels registered with the connection \<^verbatim>\<open>n.conn\<close>
  (\<open>signals\<close>).
\<close>

record networkManager =
  env :: env
  calls :: "string list"
  matches :: "string list"
  signals :: "chan list"
  heap :: "chan_state list"
  sigChan :: "chan option"

subsection \<open>The methods of dbusBase and of the connection, as the file uses them\<close>

text \<open>
  Modelled from the spec: \<^verbatim>\<open>call\<close>, \<^verbatim>\<open>call2\<close>, \<^verbatim>\<open>callError2\<close>,
  \<^verbatim>\<open>getUint32Property\<close> and \<^verbatim>\<open>getSliceObjectProperty\<close> are methods of \<^verbatim>\<open>dbusBase\<close>
  and not in NetworkManager.go. By the spec (section 4.1) each sends one synchronous
  request and returns the decoded reply or an error. Here each records the request it
  sends and answers what the environment answers.
\<close>

definition call_paths :: "networkManager \<Rightarrow> string \<Rightarrow> (error + ObjectPath list) \<times> networkManager" where
  "call_paths n m = (call_ObjectPaths (env n) m, n\<lparr>calls := calls n @ [m]\<rparr>)"

definition call_path ::
  "networkManager \<Rightarrow> string \<Rightarrow> ObjectPath \<Rightarrow> ObjectPath \<Rightarrow> ObjectPath
     \<Rightarrow> (error + ObjectPath) \<times> networkManager" where
  "call_path n m a b c = (call_ObjectPath (env n) m a b c, n\<lparr>calls := calls n @ [m]\<rparr>)"

definition call2 ::
  "networkManager \<Rightarrow> string \<Rightarrow> profile \<Rightarrow> ObjectPath \<Rightarrow> ObjectPath
     \<Rightarrow> (error + ObjectPath \<times> ObjectPath) \<times> networkManager" where
  "call2 n m connection a b = (call2_reply (env n) m connection a b, n\<lparr>calls := calls n @ [m]\<rparr>)"

definition callError2 ::
  "networkManager \<Rightarrow> string \<Rightarrow> profile \<Rightarrow> ObjectPath \<Rightarrow> ObjectPath
     \<Rightarrow> (error + ObjectPath \<times> ObjectPath) \<times> networkManager" where
  "callError2 n m connection a b =
     (callError2_reply (env n) m connection a b, n\<lparr>calls := calls n @ [m]\<rparr>)"

definition getUint32Property :: "networkManager \<Rightarrow> string \<Rightarrow> (error + 32 word) \<times> networkManager" where
  "getUint32Property n p = (getUint32Property_reply (env n) p, n\<lparr>calls := calls n @ [p]\<rparr>)"

definition getSliceObjectProperty ::
  "networkManager \<Rightarrow> string \<Rightarrow> (error + ObjectPath list) \<times> networkManager" where
  "getSliceObjectProperty n p =
     (getSliceObjectProperty_reply (env n) p, n\<lparr>calls := calls n @ [p]\<rparr>)"

text \<open>
  Modelled from the spec: \<^verbatim>\<open>subscribeNamespace\<close> is a method of \<^verbatim>\<open>dbusBase\<close> and not
  in NetworkManager.go. By the spec (section 4.1) it registers interest in all
  notifications under an object-path namespace.
\<close>

definition subscribeNamespace :: "networkManager \<Rightarrow> string \<Rightarrow> networkManager" where
  "subscribeNamespace n namespace = n\<lparr>matches := matches n @ [namespace]\<rparr>"

text \<open>
  godbus: \<^verbatim>\<open>conn.Signal(ch)\<close> adds the channel to the connection's registered channels,
  \<^verbatim>\<open>conn.RemoveSignal(ch)\<close> removes it from them. Neither closes a channel.
\<close>

definition conn_Signal :: "networkManager \<Rightarrow> chan option \<Rightarrow> networkManager" where
  "conn_Signal n ch = (case ch of None \<Rightarrow> n | Some c \<Rightarrow> n\<lparr>signals := signals n @ [c]\<rparr>)"

definition conn_RemoveSignal :: "networkManager \<Rightarrow> chan option \<Rightarrow> networkManager" where
  "conn_RemoveSignal n ch =
     (case ch of None \<Rightarrow> n | Some c \<Rightarrow> n\<lparr>signals := filter (\<lambda>x. x \<noteq> c) (signals n)\<rparr>)"

definition make_chan :: "networkManager \<Rightarrow> nat \<Rightarrow> chan option \<times> networkManager" where
  "make_chan n cap = (Some (length (heap n)), n\<lparr>heap := heap n @ [Chan cap False]\<rparr>)"

text \<open>
  Modelled from the spec: \<^verbatim>\<open>DeviceFactory\<close> and \<^verbatim>\<open>NewActiveConnection\<close> are not in
  NetworkManager.go. By the spec (sections 3, 7 and 8) wrapping a path either fails, or
  gives a handle of that path.
\<close>

definition DeviceFactory :: "env \<Rightarrow> ObjectPath \<Rightarrow> Device option \<times> error option" where
  "DeviceFactory e path =
     (case DeviceFactory_fault e path of
        Some err \<Rightarrow> (None, Some err)
      | None \<Rightarrow> (Some (Device path), None))"

definition NewActiveConnection :: "env \<Rightarrow> ObjectPath \<Rightarrow> ActiveConnection option \<times> error option" where
  "NewActiveConnection e path =
     (case NewActiveConnection_fault e path of
        Some err \<Rightarrow> (None, Some err)
      | None \<Rightarrow> (Some (ActiveConnection path), None))"

subsection \<open>The methods of networkManager\<close>

text \<open>
  The loop of \<^verbatim>\<open>GetDevices\<close>, \<^verbatim>\<open>for i, path := range devicePaths\<close>: \<open>i\<close> is the index
  of the head of the paths still to visit. \<^verbatim>\<open>devices\<close> has the length of
  \<^verbatim>\<open>devicePaths\<close>, so the store \<^verbatim>\<open>devices[i] = ...\<close> is always in range.
\<close>

fun GetDevices_loop ::
  "env \<Rightarrow> nat \<Rightarrow> ObjectPath list \<Rightarrow> Device option list
     \<Rightarrow> Device option list option \<times> error option" where
  "GetDevices_loop e i [] devices = (Some devices, None)"
| "GetDevices_loop e i (path # rest) devices =
     (case DeviceFactory e path of
        (d, err) \<Rightarrow>
          (let devices' = devices[i := d]
           in case err of
                Some x \<Rightarrow> (None, Some x)
              | None \<Rightarrow> GetDevices_loop e (Suc i) rest devices'))"

definition GetDevices ::
  "networkManager \<Rightarrow> (Device option list option \<times> error option) \<times> networkManager" where
  "GetDevices n =
     (case call_paths n NetworkManagerGetDevices of
        (Inl err, n') \<Rightarrow> ((None, Some err), n')
      | (Inr devicePaths, n') \<Rightarrow>
          (GetDevices_loop (env n') 0 devicePaths (replicate (length devicePaths) None), n'))"

definition GetState :: "networkManager \<Rightarrow> (NmState \<times> error option) \<times> networkManager" where
  "GetState n =
     (case getUint32Property n NetworkManagerPropertyState of
        (Inl err, n') \<Rightarrow> ((NmStateUnknown, Some err), n')
      | (Inr r, n') \<Rightarrow> ((NmState r, None), n'))"

fun GetActiveConnections_loop ::
  "env \<Rightarrow> nat \<Rightarrow> ObjectPath list \<Rightarrow> ActiveConnection option list
     \<Rightarrow> ActiveConnection option list option \<times> error option" where
  "GetActiveConnections_loop e i [] ac = (Some ac, None)"
| "GetActiveConnections_loop e i (path # rest) ac =
     (case NewActiveConnection e path of
        (a, err) \<Rightarrow>
          (let ac' = ac[i := a]
           in case err of
                Some x \<Rightarrow> (None, Some x)
              | None \<Rightarrow> GetActiveConnections_loop e (Suc i) rest ac'))"

definition GetActiveConnections ::
  "networkManager \<Rightarrow> (ActiveConnection option list option \<times> error option) \<times> networkManager" where
  "GetActiveConnections n =
     (case getSliceObjectProperty n NetworkManagerPropertyActiveConnection of
        (Inl err, n') \<Rightarrow> ((None, Some err), n')
      | (Inr acPaths, n') \<Rightarrow>
          (GetActiveConnections_loop (env n') 0 acPaths (replicate (length acPaths) None), n'))"

text \<open>
  \<^verbatim>\<open>return nil, n.call(&opath, ...)\<close>: the handle is the literal \<^verbatim>\<open>nil\<close>, the error
  is that of the call, and \<^verbatim>\<open>opath\<close> is not read.
\<close>

definition ActivateWirelessConnection ::
  "networkManager \<Rightarrow> Connection \<Rightarrow> Device \<Rightarrow> AccessPoint
     \<Rightarrow> (ActiveConnection option \<times> error option) \<times> networkManager" where
  "ActivateWirelessConnection n c d ap =
     (case call_path n NetworkManagerActivateConnection
             (Connection_GetPath c) (Device_GetPath d) (AccessPoint_GetPath ap) of
        (Inl err, n') \<Rightarrow> ((None, Some err), n')
      | (Inr opath, n') \<Rightarrow> ((None, None), n'))"

text \<open>
  The file defines \<^verbatim>\<open>AddAndActivateWirelessConnection\<close> twice, first over \<^verbatim>\<open>call2\<close>
  (lines 126 to 140), then over \<^verbatim>\<open>callError2\<close> (lines 142 to 156). The results are
  named, \<^verbatim>\<open>(ac, err)\<close>, and start as nil.
\<close>

definition AddAndActivateWirelessConnection_call2 ::
  "networkManager \<Rightarrow> profile \<Rightarrow> Device \<Rightarrow> AccessPoint
     \<Rightarrow> (ActiveConnection option \<times> error option) \<times> networkManager" where
  "AddAndActivateWirelessConnection_call2 n connection d ap =
     (case call2 n NetworkManagerAddAndActivateConnection connection
             (Device_GetPath d) (AccessPoint_GetPath ap) of
        (Inl err, n') \<Rightarrow> ((None, Some err), n')
      | (Inr (opath1, opath2), n') \<Rightarrow> (NewActiveConnection (env n') opath2, n'))"

definition AddAndActivateWirelessConnection_callError2 ::
  "networkManager \<Rightarrow> profile \<Rightarrow> Device \<Rightarrow> AccessPoint
     \<Rightarrow> (ActiveConnection option \<times> error option) \<times> networkManager" where
  "AddAndActivateWirelessConnection_callError2 n connection d ap =
     (case callError2 n NetworkManagerAddAndActivateConnection connection
             (Device_GetPath d) (AccessPoint_GetPath ap) of
        (Inl err, n') \<Rightarrow> ((None, Some err), n')
      | (Inr (opath1, opath2), n') \<Rightarrow> (NewActiveConnection (env n') opath2, n'))"

definition Subscribe :: "networkManager \<Rightarrow> chan option \<times> networkManager" where
  "Subscribe n =
     (if sigChan n \<noteq> None then (sigChan n, n)
      else
        let n1 = subscribeNamespace n NetworkManagerObjectPath;
            (ch, n2) = make_chan n1 10;
            n3 = n2\<lparr>sigChan := ch\<rparr>;
            n4 = conn_Signal n3 (sigChan n3)
        in (sigChan n4, n4))"

definition Unsubscribe :: "networkManager \<Rightarrow> networkManager" where
  "Unsubscribe n = (conn_RemoveSignal n (sigChan n))\<lparr>sigChan := None\<rparr>"

definition MarshalJSON :: "networkManager \<Rightarrow> (string option \<times> error option) \<times> networkManager" where
  "MarshalJSON n =
     (case GetState n of
        ((state, Some err), n1) \<Rightarrow> ((None, Some err), n1)
      | ((state, None), n1) \<Rightarrow>
          (case GetDevices n1 of
             ((devs, Some err), n2) \<Rightarrow> ((None, Some err), n2)
           | ((devs, None), n2) \<Rightarrow>
               (json_Marshal (env n2)
                  \<lparr>NetworkState = NmState_String (env n2) state, Devices = devs\<rparr>, n2)))"

subsection \<open>States and environments to run the methods on\<close>

definition dev0 :: ObjectPath where
  "dev0 = ''/org/freedesktop/NetworkManager/Devices/0''"

definition dev1 :: ObjectPath where
  "dev1 = ''/org/freedesktop/NetworkManager/Devices/1''"

definition conn7 :: ObjectPath where
  "conn7 = ''/org/freedesktop/NetworkManager/Settings/7''"

definition active3 :: ObjectPath where
  "active3 = ''/org/freedesktop/NetworkManager/ActiveConnection/3''"

definition ap5 :: ObjectPath where
  "ap5 = ''/org/freedesktop/NetworkManager/AccessPoint/5''"

text \<open>The profile of the example in the interface's comment (lines 39 to 45).\<close>

definition wpa_profile :: profile where
  "wpa_profile =
     [''802-11-wireless'' \<mapsto> [''security'' \<mapsto> SString ''802-11-wireless-security''],
      ''802-11-wireless-security'' \<mapsto>
         [''key-mgmt'' \<mapsto> SString ''wpa-psk'', ''psk'' \<mapsto> SString ''password'']]"

text \<open>A daemon that answers every request, with the state code \<open>r\<close>.\<close>

definition env_ok :: "32 word \<Rightarrow> env" where
  "env_ok r =
     \<lparr>call_ObjectPaths = (\<lambda>m. Inr [dev0, dev1]),
      call_ObjectPath = (\<lambda>m a b c. Inr active3),
      call2_reply = (\<lambda>m p a b. Inr (conn7, active3)),
      callError2_reply = (\<lambda>m p a b. Inr (conn7, active3)),
      getUint32Property_reply = (\<lambda>p. Inr r),
      getSliceObjectProperty_reply = (\<lambda>p. Inr [active3]),
      DeviceFactory_fault = (\<lambda>p. None),
      NewActiveConnection_fault = (\<lambda>p. None),
      NmState_String = (\<lambda>s. ''NmState''),
      json_Marshal = (\<lambda>s. (Some ''{}'', None))\<rparr>"

text \<open>A freshly initialised receiver: nothing sent, nothing registered, no channel.\<close>

definition nm_init :: "env \<Rightarrow> networkManager" where
  "nm_init e = \<lparr>env = e, calls = [], matches = [], signals = [], heap = [], sigChan = None\<rparr>"

text \<open>The same daemon with the state property unreadable.\<close>

definition env_state_down :: env where
  "env_state_down = (env_ok 70)\<lparr>getUint32Property_reply := (\<lambda>p. Inl (Error ''no reply''))\<rparr>"

text \<open>The same daemon with the device enumeration refused.\<close>

definition env_devices_down :: env where
  "env_devices_down = (env_ok 70)\<lparr>call_ObjectPaths := (\<lambda>m. Inl (Error ''access denied''))\<rparr>"

text \<open>
  The same daemon where the second device and the active connection do not wrap.
\<close>

definition env_wrap_fault :: env where
  "env_wrap_fault =
     (env_ok 70)\<lparr>DeviceFactory_fault := (\<lambda>p. if p = dev1 then Some (Error ''no such device'') else None),
       NewActiveConnection_fault := (\<lambda>p. Some (Error ''no such connection''))\<rparr>"

text \<open>A daemon that rejects add-and-activate; the two decodings of the fault differ.\<close>

definition env_rejects :: env where
  "env_rejects =
     (env_ok 70)\<lparr>call2_reply := (\<lambda>m p a b. Inl (Error ''rejected'')),
       callError2_reply := (\<lambda>m p a b. Inl (Error ''rejected: no secrets''))\<rparr>"

subsection \<open>Channels\<close>

text \<open>
  The invariant of the receiver's channels: the stored channel and the registered
  channels have been made. It holds of a fresh receiver, and \<^verbatim>\<open>Subscribe\<close> and
  \<^verbatim>\<open>Unsubscribe\<close> keep it.
\<close>

definition chans_made :: "networkManager \<Rightarrow> bool" where
  "chans_made n \<longleftrightarrow>
     (case sigChan n of None \<Rightarrow> True | Some c \<Rightarrow> c < length (heap n)) \<and>
     list_all (\<lambda>c. c < length (heap n)) (signals n)"

definition chan_closed :: "networkManager \<Rightarrow> chan \<Rightarrow> bool" where
  "chan_closed n c \<longleftrightarrow> c < length (heap n) \<and> is_closed (heap n ! c)"

section \<open>GetState\<close>

lemma GetState_read_error:
  "getUint32Property_reply (env n) NetworkManagerPropertyState = Inl err
   \<Longrightarrow> GetState n = ((NmStateUnknown, Some err), n\<lparr>calls := calls n @ [NetworkManagerPropertyState]\<rparr>)"
  by (simp add: GetState_def getUint32Property_def)

lemma GetState_read_ok:
  "getUint32Property_reply (env n) NetworkManagerPropertyState = Inr r
   \<Longrightarrow> GetState n = ((NmState r, None), n\<lparr>calls := calls n @ [NetworkManagerPropertyState]\<rparr>)"
  by (simp add: GetState_def getUint32Property_def)
lemma names_differ: "NetworkManagerGetDevices \<noteq> NetworkManagerPropertyState"
  by (simp add: NetworkManagerGetDevices_def NetworkManagerPropertyState_def)

text \<open>
  Claim C10. Whenever the read of the state property fails, \<^verbatim>\<open>GetState\<close> returns
  \<^verbatim>\<open>NmStateUnknown\<close> together with the error of the read; so the state that comes with
  a non-nil error is always the unknown sentinel.
\<close>

theorem GetState_error_gives_Unknown:
  "(getUint32Property_reply (env n) NetworkManagerPropertyState = Inl err
      \<longrightarrow> fst (GetState n) = (NmStateUnknown, Some err))
   \<and> (snd (fst (GetState n)) \<noteq> None \<longrightarrow> fst (fst (GetState n)) = NmStateUnknown)"
  by (cases "getUint32Property_reply (env n) NetworkManagerPropertyState")
     (simp_all add: GetState_read_error GetState_read_ok)

theorem GetState_error_gives_Unknown_witness:
  "getUint32Property_reply (env (nm_init env_state_down)) NetworkManagerPropertyState
     = Inl (Error ''no reply'')
   \<and> fst (GetState (nm_init env_state_down)) = (NmStateUnknown, Some (Error ''no reply''))
   \<and> snd (fst (GetState (nm_init env_state_down))) \<noteq> None"
proof -
  have h: "getUint32Property_reply (env (nm_init env_state_down)) NetworkManagerPropertyState
             = Inl (Error ''no reply'')"
    by (simp add: nm_init_def env_state_down_def)
  show ?thesis
    using h GetState_error_gives_Unknown [of "nm_init env_state_down" "Error ''no reply''"]
    by simp
qed

text \<open>
  Claim C1, as amended. For every integer \<open>r\<close> read from the state property,
  \<^verbatim>\<open>GetState\<close> returns \<^verbatim>\<open>NmState(r)\<close>, the state whose code is \<open>r\<close>, and a nil error.
  A defined code gives its variant (0 unknown, 70 connected); a code outside the defined
  set is returned as it is, and is \<^verbatim>\<open>NmStateUnknown\<close> only when \<open>r\<close> is 0.
\<close>

theorem GetState_returns_code:
  "getUint32Property_reply (env n) NetworkManagerPropertyState = Inr r
   \<Longrightarrow> fst (GetState n) = (NmState r, None)
       \<and> code (fst (fst (GetState n))) = r
       \<and> (fst (fst (GetState n)) = NmStateUnknown \<longleftrightarrow> r = 0)"
  by (simp add: GetState_read_ok NmStateUnknown_def)

theorem GetState_returns_code_witness:
  "getUint32Property_reply (env (nm_init (env_ok 70))) NetworkManagerPropertyState = Inr 70
   \<and> fst (GetState (nm_init (env_ok 70))) = (NmStateConnectedGlobal, None)
   \<and> getUint32Property_reply (env (nm_init (env_ok 0))) NetworkManagerPropertyState = Inr 0
   \<and> fst (GetState (nm_init (env_ok 0))) = (NmStateUnknown, None)"
proof -
  have h: "getUint32Property_reply (env (nm_init (env_ok 70))) NetworkManagerPropertyState = Inr 70"
    by (simp add: nm_init_def env_ok_def)
  have z: "getUint32Property_reply (env (nm_init (env_ok 0))) NetworkManagerPropertyState = Inr 0"
    by (simp add: nm_init_def env_ok_def)
  show ?thesis
    using h z GetState_returns_code [OF h] GetState_returns_code [OF z]
    by (simp add: NmStateConnectedGlobal_def NmStateUnknown_def)
qed

text \<open>
  Claim C1 as stated fails: 80 is not a defined code, and \<^verbatim>\<open>GetState\<close> returns the
  state of code 80, which is not \<^verbatim>\<open>NmStateUnknown\<close>.
\<close>

theorem GetState_undefined_code_counterexample:
  "80 \<notin> set NmState_defined
   \<and> getUint32Property_reply (env (nm_init (env_ok 80))) NetworkManagerPropertyState = Inr 80
   \<and> fst (GetState (nm_init (env_ok 80))) = (NmState 80, None)
   \<and> NmState 80 \<noteq> NmStateUnknown"
  by (simp add: NmState_defined_def GetState_def getUint32Property_def nm_init_def env_ok_def
        NmStateUnknown_def)

section \<open>GetDevices and GetActiveConnections\<close>

lemma DeviceFactory_wraps:
  "DeviceFactory_fault e p = None \<Longrightarrow> DeviceFactory e p = (Some (Device p), None)"
  by (simp add: DeviceFactory_def)

lemma DeviceFactory_faults:
  "DeviceFactory_fault e p = Some x \<Longrightarrow> DeviceFactory e p = (None, Some x)"
  by (simp add: DeviceFactory_def)

lemma NewActiveConnection_wraps:
  "NewActiveConnection_fault e p = None
   \<Longrightarrow> NewActiveConnection e p = (Some (ActiveConnection p), None)"
  by (simp add: NewActiveConnection_def)

lemma NewActiveConnection_faults:
  "NewActiveConnection_fault e p = Some x \<Longrightarrow> NewActiveConnection e p = (None, Some x)"
  by (simp add: NewActiveConnection_def)

lemma store_then_take:
  assumes "i < length xs"
  shows "take (Suc i) (xs[i := v]) = take i xs @ [v]"
  using assms by (simp add: take_Suc_conv_app_nth)

lemma GetDevices_loop_all_wrap:
  assumes "\<forall>p \<in> set ps. DeviceFactory_fault e p = None"
    and "i + length ps \<le> length devices"
  shows "GetDevices_loop e i ps devices =
           (Some (take i devices @ map (\<lambda>p. Some (Device p)) ps @ drop (i + length ps) devices),
            None)"
  using assms
proof (induction ps arbitrary: i devices)
  case Nil
  then show ?case by simp
next
  case (Cons p ps)
  have inb: "i < length devices"
    using Cons.prems(2) by simp
  have wrap: "DeviceFactory e p = (Some (Device p), None)"
    using Cons.prems(1) by (simp add: DeviceFactory_wraps)
  have step: "GetDevices_loop e i (p # ps) devices =
                GetDevices_loop e (Suc i) ps (devices[i := Some (Device p)])"
    by (simp add: wrap)
  have rest: "GetDevices_loop e (Suc i) ps (devices[i := Some (Device p)]) =
                (Some (take (Suc i) (devices[i := Some (Device p)])
                       @ map (\<lambda>p. Some (Device p)) ps
                       @ drop (Suc i + length ps) (devices[i := Some (Device p)])), None)"
    using Cons.prems by (intro Cons.IH) simp_all
  show ?case
    unfolding step rest using inb by (simp add: store_then_take)
qed

lemma GetDevices_loop_some_fault:
  assumes "\<exists>p \<in> set ps. DeviceFactory_fault e p \<noteq> None"
  shows "\<exists>p \<in> set ps. \<exists>x. DeviceFactory_fault e p = Some x
           \<and> GetDevices_loop e i ps devices = (None, Some x)"
  using assms
proof (induction ps arbitrary: i devices)
  case Nil
  then show ?case by simp
next
  case (Cons p ps)
  show ?case
  proof (cases "DeviceFactory_fault e p")
    case (Some x)
    then show ?thesis by (simp add: DeviceFactory_faults)
  next
    case None
    with Cons.prems have "\<exists>q \<in> set ps. DeviceFactory_fault e q \<noteq> None"
      by auto
    from Cons.IH [OF this, of "Suc i" "devices[i := Some (Device p)]"] None
    show ?thesis by (auto simp: DeviceFactory_wraps)
  qed
qed

lemma GetActiveConnections_loop_some_fault:
  assumes "\<exists>p \<in> set ps. NewActiveConnection_fault e p \<noteq> None"
  shows "\<exists>p \<in> set ps. \<exists>x. NewActiveConnection_fault e p = Some x
           \<and> GetActiveConnections_loop e i ps ac = (None, Some x)"
  using assms
proof (induction ps arbitrary: i ac)
  case Nil
  then show ?case by simp
next
  case (Cons p ps)
  show ?case
  proof (cases "NewActiveConnection_fault e p")
    case (Some x)
    then show ?thesis by (simp add: NewActiveConnection_faults)
  next
    case None
    with Cons.prems have "\<exists>q \<in> set ps. NewActiveConnection_fault e q \<noteq> None"
      by auto
    from Cons.IH [OF this, of "Suc i" "ac[i := Some (ActiveConnection p)]"] None
    show ?thesis by (auto simp: NewActiveConnection_wraps)
  qed
qed

lemma GetDevices_call_ok:
  "call_ObjectPaths (env n) NetworkManagerGetDevices = Inr ps
   \<Longrightarrow> GetDevices n =
         (GetDevices_loop (env n) 0 ps (replicate (length ps) None),
          n\<lparr>calls := calls n @ [NetworkManagerGetDevices]\<rparr>)"
  by (simp add: GetDevices_def call_paths_def)

lemma GetActiveConnections_read_ok:
  "getSliceObjectProperty_reply (env n) NetworkManagerPropertyActiveConnection = Inr ps
   \<Longrightarrow> GetActiveConnections n =
         (GetActiveConnections_loop (env n) 0 ps (replicate (length ps) None),
          n\<lparr>calls := calls n @ [NetworkManagerPropertyActiveConnection]\<rparr>)"
  by (simp add: GetActiveConnections_def getSliceObjectProperty_def)

lemma GetDevices_all_wrap:
  assumes "call_ObjectPaths (env n) NetworkManagerGetDevices = Inr ps"
    and "\<forall>p \<in> set ps. DeviceFactory_fault (env n) p = None"
  shows "fst (GetDevices n) = (Some (map (\<lambda>p. Some (Device p)) ps), None)"
  using GetDevices_loop_all_wrap [OF assms(2), of 0 "replicate (length ps) None"]
  by (simp add: GetDevices_call_ok [OF assms(1)])

text \<open>
  Claim C6. When the reply lists a path that does not wrap, \<^verbatim>\<open>GetDevices\<close> and
  \<^verbatim>\<open>GetActiveConnections\<close> return a nil slice and an error: the handles wrapped
  before the failure are not returned.
\<close>

theorem enumeration_atomic:
  "(call_ObjectPaths (env n) NetworkManagerGetDevices = Inr ps
      \<and> (\<exists>p \<in> set ps. DeviceFactory_fault (env n) p \<noteq> None)
    \<longrightarrow> (\<exists>x. fst (GetDevices n) = (None, Some x)))
   \<and> (getSliceObjectProperty_reply (env n) NetworkManagerPropertyActiveConnection = Inr qs
      \<and> (\<exists>q \<in> set qs. NewActiveConnection_fault (env n) q \<noteq> None)
    \<longrightarrow> (\<exists>x. fst (GetActiveConnections n) = (None, Some x)))"
proof (intro conjI impI)
  assume a: "call_ObjectPaths (env n) NetworkManagerGetDevices = Inr ps
      \<and> (\<exists>p \<in> set ps. DeviceFactory_fault (env n) p \<noteq> None)"
  then obtain x where
    "GetDevices_loop (env n) 0 ps (replicate (length ps) None) = (None, Some x)"
    using GetDevices_loop_some_fault [of ps "env n" 0 "replicate (length ps) None"] by blast
  with a show "\<exists>x. fst (GetDevices n) = (None, Some x)"
    by (simp add: GetDevices_call_ok)
next
  assume a: "getSliceObjectProperty_reply (env n) NetworkManagerPropertyActiveConnection = Inr qs
      \<and> (\<exists>q \<in> set qs. NewActiveConnection_fault (env n) q \<noteq> None)"
  then obtain x where
    "GetActiveConnections_loop (env n) 0 qs (replicate (length qs) None) = (None, Some x)"
    using GetActiveConnections_loop_some_fault [of qs "env n" 0 "replicate (length qs) None"]
    by blast
  with a show "\<exists>x. fst (GetActiveConnections n) = (None, Some x)"
    by (simp add: GetActiveConnections_read_ok)
qed

theorem enumeration_atomic_witness:
  "call_ObjectPaths (env (nm_init env_wrap_fault)) NetworkManagerGetDevices = Inr [dev0, dev1]
   \<and> DeviceFactory_fault (env (nm_init env_wrap_fault)) dev0 = None
   \<and> DeviceFactory_fault (env (nm_init env_wrap_fault)) dev1 \<noteq> None
   \<and> fst (GetDevices (nm_init env_wrap_fault)) = (None, Some (Error ''no such device''))
   \<and> getSliceObjectProperty_reply (env (nm_init env_wrap_fault))
        NetworkManagerPropertyActiveConnection = Inr [active3]
   \<and> NewActiveConnection_fault (env (nm_init env_wrap_fault)) active3 \<noteq> None
   \<and> fst (GetActiveConnections (nm_init env_wrap_fault))
        = (None, Some (Error ''no such connection''))"
proof -
  have e: "env (nm_init env_wrap_fault) = env_wrap_fault"
    by (simp add: nm_init_def)
  have h1: "call_ObjectPaths (env (nm_init env_wrap_fault)) NetworkManagerGetDevices
              = Inr [dev0, dev1]"
    by (simp add: nm_init_def env_wrap_fault_def env_ok_def)
  have h2: "DeviceFactory_fault (env (nm_init env_wrap_fault)) dev0 = None"
    by (simp add: nm_init_def env_wrap_fault_def dev0_def dev1_def)
  have h3: "DeviceFactory_fault (env (nm_init env_wrap_fault)) dev1 = Some (Error ''no such device'')"
    by (simp add: nm_init_def env_wrap_fault_def)
  have h4: "getSliceObjectProperty_reply (env (nm_init env_wrap_fault))
              NetworkManagerPropertyActiveConnection = Inr [active3]"
    by (simp add: nm_init_def env_wrap_fault_def env_ok_def)
  have h5: "NewActiveConnection_fault (env (nm_init env_wrap_fault)) active3
              = Some (Error ''no such connection'')"
    by (simp add: nm_init_def env_wrap_fault_def)
  have g1: "fst (GetDevices (nm_init env_wrap_fault)) = (None, Some (Error ''no such device''))"
    by (simp add: GetDevices_call_ok [OF h1] DeviceFactory_def h2 h3)
  have g2: "fst (GetActiveConnections (nm_init env_wrap_fault))
              = (None, Some (Error ''no such connection''))"
    by (simp add: GetActiveConnections_read_ok [OF h4] NewActiveConnection_def h5)
  show ?thesis
    using enumeration_atomic [of "nm_init env_wrap_fault" "[dev0, dev1]" "[active3]"]
      h1 h2 h3 h4 h5 g1 g2
    by simp
qed

text \<open>
  Claim C8. Wrapping a path for which the factory does not fail gives a device handle
  of that path; and when every path of the enumeration reply wraps, \<^verbatim>\<open>GetDevices\<close>
  returns one handle for each path, the handle at index \<open>i\<close> having the path at
  index \<open>i\<close>.
\<close>

theorem device_wrap_round_trip:
  "(DeviceFactory_fault e p = None
      \<longrightarrow> (\<exists>d. DeviceFactory e p = (Some d, None) \<and> Device_GetPath d = p))
   \<and> (call_ObjectPaths (env n) NetworkManagerGetDevices = Inr ps
        \<and> (\<forall>p \<in> set ps. DeviceFactory_fault (env n) p = None)
      \<longrightarrow> (\<exists>ds. fst (GetDevices n) = (Some ds, None) \<and> length ds = length ps
             \<and> (\<forall>i < length ps. \<exists>d. ds ! i = Some d \<and> Device_GetPath d = ps ! i)))"
proof (intro conjI impI)
  assume "DeviceFactory_fault e p = None"
  then show "\<exists>d. DeviceFactory e p = (Some d, None) \<and> Device_GetPath d = p"
    by (simp add: DeviceFactory_wraps)
next
  assume a: "call_ObjectPaths (env n) NetworkManagerGetDevices = Inr ps
        \<and> (\<forall>p \<in> set ps. DeviceFactory_fault (env n) p = None)"
  then have "fst (GetDevices n) = (Some (map (\<lambda>p. Some (Device p)) ps), None)"
    by (simp add: GetDevices_all_wrap)
  then show "\<exists>ds. fst (GetDevices n) = (Some ds, None) \<and> length ds = length ps
             \<and> (\<forall>i < length ps. \<exists>d. ds ! i = Some d \<and> Device_GetPath d = ps ! i)"
    by simp
qed

theorem device_wrap_round_trip_witness:
  "DeviceFactory_fault (env_ok 70) dev1 = None
   \<and> DeviceFactory (env_ok 70) dev1 = (Some (Device dev1), None)
   \<and> call_ObjectPaths (env (nm_init (env_ok 70))) NetworkManagerGetDevices = Inr [dev0, dev1]
   \<and> DeviceFactory_fault (env (nm_init (env_ok 70))) dev0 = None
   \<and> DeviceFactory_fault (env (nm_init (env_ok 70))) dev1 = None
   \<and> fst (GetDevices (nm_init (env_ok 70))) = (Some [Some (Device dev0), Some (Device dev1)], None)"
proof -
  have e: "env (nm_init (env_ok 70)) = env_ok 70"
    by (simp add: nm_init_def)
  have h0: "DeviceFactory_fault (env_ok 70) dev1 = None"
    by (simp add: env_ok_def)
  have h1: "call_ObjectPaths (env (nm_init (env_ok 70))) NetworkManagerGetDevices = Inr [dev0, dev1]"
    by (simp add: nm_init_def env_ok_def)
  have h2: "\<forall>p \<in> set [dev0, dev1]. DeviceFactory_fault (env (nm_init (env_ok 70))) p = None"
    by (simp add: nm_init_def env_ok_def)
  have g0: "DeviceFactory (env_ok 70) dev1 = (Some (Device dev1), None)"
    by (simp add: DeviceFactory_def h0)
  have g1: "fst (GetDevices (nm_init (env_ok 70)))
              = (Some [Some (Device dev0), Some (Device dev1)], None)"
    using h2 by (simp add: GetDevices_call_ok [OF h1] DeviceFactory_def)
  show ?thesis
    using device_wrap_round_trip [of "env_ok 70" dev1 "nm_init (env_ok 70)" "[dev0, dev1]"]
      h0 h1 h2 g0 g1
    by simp
qed

section \<open>ActivateWirelessConnection and AddAndActivateWirelessConnection\<close>

text \<open>
  Claim C2 is not met by the code. The remote call succeeds and returns the path of an
  active connection; \<^verbatim>\<open>ActivateWirelessConnection\<close> returns a nil handle with a nil
  error, where the claim has a handle of the returned path.
\<close>

theorem ActivateWirelessConnection_success_returns_nil:
  "call_ObjectPath (env (nm_init (env_ok 70))) NetworkManagerActivateConnection conn7 dev0 ap5
     = Inr active3
   \<and> fst (ActivateWirelessConnection (nm_init (env_ok 70))
            (Connection conn7) (Device dev0) (AccessPoint ap5)) = (None, None)"
  by (simp add: ActivateWirelessConnection_def call_path_def nm_init_def env_ok_def)

lemma AddAndActivate_call2_ok:
  "call2_reply (env n) NetworkManagerAddAndActivateConnection connection
       (Device_GetPath d) (AccessPoint_GetPath ap) = Inr (opath1, opath2)
   \<Longrightarrow> AddAndActivateWirelessConnection_call2 n connection d ap =
         (NewActiveConnection (env n) opath2,
          n\<lparr>calls := calls n @ [NetworkManagerAddAndActivateConnection]\<rparr>)"
  by (simp add: AddAndActivateWirelessConnection_call2_def call2_def)

lemma AddAndActivate_call2_error:
  "call2_reply (env n) NetworkManagerAddAndActivateConnection connection
       (Device_GetPath d) (AccessPoint_GetPath ap) = Inl err
   \<Longrightarrow> AddAndActivateWirelessConnection_call2 n connection d ap =
         ((None, Some err), n\<lparr>calls := calls n @ [NetworkManagerAddAndActivateConnection]\<rparr>)"
  by (simp add: AddAndActivateWirelessConnection_call2_def call2_def)

lemma AddAndActivate_callError2_ok:
  "callError2_reply (env n) NetworkManagerAddAndActivateConnection connection
       (Device_GetPath d) (AccessPoint_GetPath ap) = Inr (opath1, opath2)
   \<Longrightarrow> AddAndActivateWirelessConnection_callError2 n connection d ap =
         (NewActiveConnection (env n) opath2,
          n\<lparr>calls := calls n @ [NetworkManagerAddAndActivateConnection]\<rparr>)"
  by (simp add: AddAndActivateWirelessConnection_callError2_def callError2_def)

lemma AddAndActivate_callError2_error:
  "callError2_reply (env n) NetworkManagerAddAndActivateConnection connection
       (Device_GetPath d) (AccessPoint_GetPath ap) = Inl err
   \<Longrightarrow> AddAndActivateWirelessConnection_callError2 n connection d ap =
         ((None, Some err), n\<lparr>calls := calls n @ [NetworkManagerAddAndActivateConnection]\<rparr>)"
  by (simp add: AddAndActivateWirelessConnection_callError2_def callError2_def)

lemma NewActiveConnection_handle_path:
  "fst (NewActiveConnection e p) = Some a \<Longrightarrow> ActiveConnection_GetPath a = p"
  by (auto simp: NewActiveConnection_def split: option.splits)

text \<open>
  Claim C3. When the remote call returns two paths, \<^verbatim>\<open>AddAndActivateWirelessConnection\<close>
  returns what \<^verbatim>\<open>NewActiveConnection\<close> makes of the second path: any handle it returns
  has the second path, and the first path is not used.
\<close>

theorem AddAndActivate_wraps_second_path:
  assumes "call2_reply (env n) NetworkManagerAddAndActivateConnection connection
             (Device_GetPath d) (AccessPoint_GetPath ap) = Inr (opath1, opath2)"
  shows "fst (AddAndActivateWirelessConnection_call2 n connection d ap)
           = NewActiveConnection (env n) opath2
     \<and> (\<forall>a. fst (fst (AddAndActivateWirelessConnection_call2 n connection d ap)) = Some a
            \<longrightarrow> ActiveConnection_GetPath a = opath2)
     \<and> (NewActiveConnection_fault (env n) opath2 = None
          \<longrightarrow> fst (AddAndActivateWirelessConnection_call2 n connection d ap)
                = (Some (ActiveConnection opath2), None))"
proof -
  have r: "fst (AddAndActivateWirelessConnection_call2 n connection d ap)
             = NewActiveConnection (env n) opath2"
    by (simp add: AddAndActivate_call2_ok [OF assms])
  show ?thesis
    unfolding r
    by (auto simp: NewActiveConnection_wraps dest: NewActiveConnection_handle_path)
qed

theorem AddAndActivate_wraps_second_path_witness:
  "call2_reply (env (nm_init (env_ok 70))) NetworkManagerAddAndActivateConnection wpa_profile
       (Device_GetPath (Device dev0)) (AccessPoint_GetPath (AccessPoint ap5))
     = Inr (conn7, active3)
   \<and> NewActiveConnection_fault (env (nm_init (env_ok 70))) active3 = None
   \<and> fst (AddAndActivateWirelessConnection_call2 (nm_init (env_ok 70)) wpa_profile
            (Device dev0) (AccessPoint ap5)) = (Some (ActiveConnection active3), None)
   \<and> active3 \<noteq> conn7"
proof -
  have h: "call2_reply (env (nm_init (env_ok 70))) NetworkManagerAddAndActivateConnection wpa_profile
             (Device_GetPath (Device dev0)) (AccessPoint_GetPath (AccessPoint ap5))
           = Inr (conn7, active3)"
    by (simp add: nm_init_def env_ok_def)
  have f: "NewActiveConnection_fault (env (nm_init (env_ok 70))) active3 = None"
    by (simp add: nm_init_def env_ok_def)
  have d: "active3 \<noteq> conn7"
    by (simp add: active3_def conn7_def)
  show ?thesis
    using AddAndActivate_wraps_second_path [OF h] h f d
    by (simp add: NewActiveConnection_def)
qed

text \<open>
  Claim C9. The two definitions of \<^verbatim>\<open>AddAndActivateWirelessConnection\<close> agree whenever
  \<^verbatim>\<open>call2\<close> and \<^verbatim>\<open>callError2\<close> decode the reply as the same two paths: both return the
  handle of the second path. On a fault each returns a nil handle and the error its own
  call decoded, and the two may differ in nothing else.
\<close>

theorem AddAndActivate_variants_agree:
  "(call2_reply (env n) NetworkManagerAddAndActivateConnection connection
        (Device_GetPath d) (AccessPoint_GetPath ap) = Inr (opath1, opath2)
      \<and> callError2_reply (env n) NetworkManagerAddAndActivateConnection connection
        (Device_GetPath d) (AccessPoint_GetPath ap) = Inr (opath1, opath2)
    \<longrightarrow> AddAndActivateWirelessConnection_call2 n connection d ap
          = AddAndActivateWirelessConnection_callError2 n connection d ap
        \<and> fst (AddAndActivateWirelessConnection_call2 n connection d ap)
          = NewActiveConnection (env n) opath2
        \<and> (NewActiveConnection_fault (env n) opath2 = None
            \<longrightarrow> fst (AddAndActivateWirelessConnection_callError2 n connection d ap)
                  = (Some (ActiveConnection opath2), None)))
   \<and> (call2_reply (env n) NetworkManagerAddAndActivateConnection connection
        (Device_GetPath d) (AccessPoint_GetPath ap) = Inl err1
      \<and> callError2_reply (env n) NetworkManagerAddAndActivateConnection connection
        (Device_GetPath d) (AccessPoint_GetPath ap) = Inl err2
    \<longrightarrow> fst (AddAndActivateWirelessConnection_call2 n connection d ap) = (None, Some err1)
        \<and> fst (AddAndActivateWirelessConnection_callError2 n connection d ap) = (None, Some err2)
        \<and> snd (AddAndActivateWirelessConnection_call2 n connection d ap)
          = snd (AddAndActivateWirelessConnection_callError2 n connection d ap))
   \<and> (call2_reply (env n) NetworkManagerAddAndActivateConnection connection
        (Device_GetPath d) (AccessPoint_GetPath ap)
      = callError2_reply (env n) NetworkManagerAddAndActivateConnection connection
        (Device_GetPath d) (AccessPoint_GetPath ap)
    \<longrightarrow> AddAndActivateWirelessConnection_call2 n connection d ap
          = AddAndActivateWirelessConnection_callError2 n connection d ap)"
proof (intro conjI impI)
  assume a: "call2_reply (env n) NetworkManagerAddAndActivateConnection connection
        (Device_GetPath d) (AccessPoint_GetPath ap) = Inr (opath1, opath2)
      \<and> callError2_reply (env n) NetworkManagerAddAndActivateConnection connection
        (Device_GetPath d) (AccessPoint_GetPath ap) = Inr (opath1, opath2)"
  from a show "AddAndActivateWirelessConnection_call2 n connection d ap
          = AddAndActivateWirelessConnection_callError2 n connection d ap"
    by (simp add: AddAndActivate_call2_ok AddAndActivate_callError2_ok)
  from a show "fst (AddAndActivateWirelessConnection_call2 n connection d ap)
          = NewActiveConnection (env n) opath2"
    by (simp add: AddAndActivate_call2_ok)
  assume "NewActiveConnection_fault (env n) opath2 = None"
  with a show "fst (AddAndActivateWirelessConnection_callError2 n connection d ap)
                  = (Some (ActiveConnection opath2), None)"
    by (simp add: AddAndActivate_callError2_ok NewActiveConnection_wraps)
next
  assume a: "call2_reply (env n) NetworkManagerAddAndActivateConnection connection
        (Device_GetPath d) (AccessPoint_GetPath ap) = Inl err1
      \<and> callError2_reply (env n) NetworkManagerAddAndActivateConnection connection
        (Device_GetPath d) (AccessPoint_GetPath ap) = Inl err2"
  from a show "fst (AddAndActivateWirelessConnection_call2 n connection d ap) = (None, Some err1)"
    by (simp add: AddAndActivate_call2_error)
  from a show "fst (AddAndActivateWirelessConnection_callError2 n connection d ap) = (None, Some err2)"
    by (simp add: AddAndActivate_callError2_error)
  from a show "snd (AddAndActivateWirelessConnection_call2 n connection d ap)
          = snd (AddAndActivateWirelessConnection_callError2 n connection d ap)"
    by (simp add: AddAndActivate_call2_error AddAndActivate_callError2_error)
next
  assume "call2_reply (env n) NetworkManagerAddAndActivateConnection connection
        (Device_GetPath d) (AccessPoint_GetPath ap)
      = callError2_reply (env n) NetworkManagerAddAndActivateConnection connection
        (Device_GetPath d) (AccessPoint_GetPath ap)"
  then show "AddAndActivateWirelessConnection_call2 n connection d ap
          = AddAndActivateWirelessConnection_callError2 n connection d ap"
    by (simp add: AddAndActivateWirelessConnection_call2_def
          AddAndActivateWirelessConnection_callError2_def call2_def callError2_def)
qed

theorem AddAndActivate_variants_agree_witness:
  "call2_reply (env (nm_init (env_ok 70))) NetworkManagerAddAndActivateConnection wpa_profile
       (Device_GetPath (Device dev0)) (AccessPoint_GetPath (AccessPoint ap5))
     = Inr (conn7, active3)
   \<and> callError2_reply (env (nm_init (env_ok 70))) NetworkManagerAddAndActivateConnection wpa_profile
       (Device_GetPath (Device dev0)) (AccessPoint_GetPath (AccessPoint ap5))
     = Inr (conn7, active3)
   \<and> NewActiveConnection_fault (env (nm_init (env_ok 70))) active3 = None
   \<and> AddAndActivateWirelessConnection_call2 (nm_init (env_ok 70)) wpa_profile
        (Device dev0) (AccessPoint ap5)
     = AddAndActivateWirelessConnection_callError2 (nm_init (env_ok 70)) wpa_profile
        (Device dev0) (AccessPoint ap5)
   \<and> fst (AddAndActivateWirelessConnection_callError2 (nm_init (env_ok 70)) wpa_profile
        (Device dev0) (AccessPoint ap5)) = (Some (ActiveConnection active3), None)
   \<and> call2_reply (env (nm_init env_rejects)) NetworkManagerAddAndActivateConnection wpa_profile
       (Device_GetPath (Device dev0)) (AccessPoint_GetPath (AccessPoint ap5))
     = Inl (Error ''rejected'')
   \<and> callError2_reply (env (nm_init env_rejects)) NetworkManagerAddAndActivateConnection wpa_profile
       (Device_GetPath (Device dev0)) (AccessPoint_GetPath (AccessPoint ap5))
     = Inl (Error ''rejected: no secrets'')
   \<and> fst (AddAndActivateWirelessConnection_call2 (nm_init env_rejects) wpa_profile
        (Device dev0) (AccessPoint ap5)) = (None, Some (Error ''rejected''))
   \<and> fst (AddAndActivateWirelessConnection_callError2 (nm_init env_rejects) wpa_profile
        (Device dev0) (AccessPoint ap5)) = (None, Some (Error ''rejected: no secrets''))"
proof -
  have h1: "call2_reply (env (nm_init (env_ok 70))) NetworkManagerAddAndActivateConnection wpa_profile
       (Device_GetPath (Device dev0)) (AccessPoint_GetPath (AccessPoint ap5))
     = Inr (conn7, active3)"
    by (simp add: nm_init_def env_ok_def)
  have h2: "callError2_reply (env (nm_init (env_ok 70))) NetworkManagerAddAndActivateConnection wpa_profile
       (Device_GetPath (Device dev0)) (AccessPoint_GetPath (AccessPoint ap5))
     = Inr (conn7, active3)"
    by (simp add: nm_init_def env_ok_def)
  have h3: "NewActiveConnection_fault (env (nm_init (env_ok 70))) active3 = None"
    by (simp add: nm_init_def env_ok_def)
  have h4: "call2_reply (env (nm_init env_rejects)) NetworkManagerAddAndActivateConnection wpa_profile
       (Device_GetPath (Device dev0)) (AccessPoint_GetPath (AccessPoint ap5))
     = Inl (Error ''rejected'')"
    by (simp add: nm_init_def env_rejects_def)
  have h5: "callError2_reply (env (nm_init env_rejects)) NetworkManagerAddAndActivateConnection wpa_profile
       (Device_GetPath (Device dev0)) (AccessPoint_GetPath (AccessPoint ap5))
     = Inl (Error ''rejected: no secrets'')"
    by (simp add: nm_init_def env_rejects_def)
  show ?thesis
    using
      AddAndActivate_variants_agree [of "nm_init (env_ok 70)" wpa_profile "Device dev0"
        "AccessPoint ap5" conn7 active3]
      AddAndActivate_variants_agree [of "nm_init env_rejects" wpa_profile "Device dev0"
        "AccessPoint ap5" _ _ "Error ''rejected''" "Error ''rejected: no secrets''"]
      h1 h2 h3 h4 h5
    by simp
qed

section \<open>Subscribe and Unsubscribe\<close>

lemma Subscribe_subscribed:
  "sigChan n \<noteq> None \<Longrightarrow> Subscribe n = (sigChan n, n)"
  by (simp add: Subscribe_def)

lemma Subscribe_fresh:
  "sigChan n = None \<Longrightarrow>
   Subscribe n =
     (Some (length (heap n)),
      n\<lparr>matches := matches n @ [NetworkManagerObjectPath],
        heap := heap n @ [Chan 10 False],
        sigChan := Some (length (heap n)),
        signals := signals n @ [length (heap n)]\<rparr>)"
  by (simp add: Subscribe_def subscribeNamespace_def make_chan_def conn_Signal_def)

lemma Subscribe_stores_result:
  "sigChan (snd (Subscribe n)) = fst (Subscribe n) \<and> fst (Subscribe n) \<noteq> None"
  by (cases "sigChan n") (simp_all add: Subscribe_fresh Subscribe_subscribed)

lemma Unsubscribe_fields:
  "sigChan (Unsubscribe n) = None"
  "heap (Unsubscribe n) = heap n"
  "matches (Unsubscribe n) = matches n"
  "calls (Unsubscribe n) = calls n"
  "env (Unsubscribe n) = env n"
  "signals (Unsubscribe n) =
     (case sigChan n of None \<Rightarrow> signals n | Some c \<Rightarrow> filter (\<lambda>x. x \<noteq> c) (signals n))"
  by (simp_all add: Unsubscribe_def conn_RemoveSignal_def split: option.split)

lemma chans_made_init: "chans_made (nm_init e)"
  by (simp add: chans_made_def nm_init_def)

lemma chans_made_Subscribe: "chans_made n \<Longrightarrow> chans_made (snd (Subscribe n))"
  by (cases "sigChan n")
     (auto simp: Subscribe_fresh Subscribe_subscribed chans_made_def less_Suc_eq list_all_iff)

lemma chans_made_Unsubscribe: "chans_made n \<Longrightarrow> chans_made (Unsubscribe n)"
  by (auto simp: chans_made_def Unsubscribe_fields list_all_iff split: option.splits)

text \<open>
  Claim C5. With a channel stored, \<^verbatim>\<open>Subscribe\<close> returns that channel and leaves the
  receiver as it is: no namespace is registered, no channel is made or registered. So a
  second \<^verbatim>\<open>Subscribe\<close> returns the channel of the first.
\<close>

theorem Subscribe_idempotent:
  "(sigChan n \<noteq> None \<longrightarrow> Subscribe n = (sigChan n, n))
   \<and> Subscribe (snd (Subscribe n)) = (fst (Subscribe n), snd (Subscribe n))"
proof (intro conjI impI)
  assume "sigChan n \<noteq> None"
  then show "Subscribe n = (sigChan n, n)"
    by (rule Subscribe_subscribed)
next
  have "sigChan (snd (Subscribe n)) \<noteq> None"
    using Subscribe_stores_result [of n] by simp
  then have "Subscribe (snd (Subscribe n)) = (sigChan (snd (Subscribe n)), snd (Subscribe n))"
    by (rule Subscribe_subscribed)
  then show "Subscribe (snd (Subscribe n)) = (fst (Subscribe n), snd (Subscribe n))"
    using Subscribe_stores_result [of n] by simp
qed

theorem Subscribe_idempotent_witness:
  "sigChan (snd (Subscribe (nm_init (env_ok 70)))) = Some 0
   \<and> Subscribe (snd (Subscribe (nm_init (env_ok 70))))
       = (Some 0, snd (Subscribe (nm_init (env_ok 70))))
   \<and> matches (snd (Subscribe (snd (Subscribe (nm_init (env_ok 70))))))
       = [NetworkManagerObjectPath]
   \<and> signals (snd (Subscribe (snd (Subscribe (nm_init (env_ok 70)))))) = [0]"
proof -
  have s: "Subscribe (nm_init (env_ok 70)) =
             (Some 0, \<lparr>env = env_ok 70, calls = [], matches = [NetworkManagerObjectPath],
                signals = [0], heap = [Chan 10 False], sigChan = Some 0\<rparr>)"
    by (simp add: Subscribe_fresh nm_init_def)
  have h: "sigChan (snd (Subscribe (nm_init (env_ok 70)))) \<noteq> None"
    by (simp add: s)
  show ?thesis
    using Subscribe_idempotent [of "snd (Subscribe (nm_init (env_ok 70)))"] h
    by (simp add: s)
qed

text \<open>
  Claim C4, as amended. \<^verbatim>\<open>Unsubscribe\<close> removes the stored channel from the channels
  registered with the connection and sets the stored channel to nil; it closes no
  channel. A \<^verbatim>\<open>Subscribe\<close> after it makes a new channel, which is not the previous one,
  is open, and is registered with the connection, and returns it.
\<close>

theorem Unsubscribe_then_Subscribe:
  assumes "chans_made n"
  shows "sigChan (Unsubscribe n) = None
     \<and> (\<forall>c. sigChan n = Some c \<longrightarrow> c \<notin> set (signals (Unsubscribe n)))
     \<and> heap (Unsubscribe n) = heap n
     \<and> (\<exists>c. fst (Subscribe (Unsubscribe n)) = Some c
          \<and> sigChan n \<noteq> Some c
          \<and> \<not> c < length (heap n)
          \<and> c \<notin> set (signals (Unsubscribe n))
          \<and> sigChan (snd (Subscribe (Unsubscribe n))) = Some c
          \<and> c \<in> set (signals (snd (Subscribe (Unsubscribe n))))
          \<and> c < length (heap (snd (Subscribe (Unsubscribe n))))
          \<and> heap (snd (Subscribe (Unsubscribe n))) ! c = Chan 10 False
          \<and> \<not> chan_closed (snd (Subscribe (Unsubscribe n))) c)"
proof -
  let ?u = "Unsubscribe n"
  have u: "chans_made ?u"
    using assms by (rule chans_made_Unsubscribe)
  have removed: "\<forall>c. sigChan n = Some c \<longrightarrow> c \<notin> set (signals ?u)"
    by (simp add: Unsubscribe_fields)
  have old: "sigChan n \<noteq> Some (length (heap n))"
    using assms by (auto simp: chans_made_def split: option.splits)
  have unreg: "length (heap n) \<notin> set (signals ?u)"
    using u by (auto simp: chans_made_def list_all_iff Unsubscribe_fields(2))
  have s: "Subscribe ?u =
             (Some (length (heap n)),
              ?u\<lparr>matches := matches ?u @ [NetworkManagerObjectPath],
                 heap := heap n @ [Chan 10 False],
                 sigChan := Some (length (heap n)),
                 signals := signals ?u @ [length (heap n)]\<rparr>)"
    using Subscribe_fresh [of ?u] by (simp add: Unsubscribe_fields)
  show ?thesis
    using removed old unreg
    by (simp add: s Unsubscribe_fields(1,2) chan_closed_def)
qed

theorem Unsubscribe_then_Subscribe_witness:
  "chans_made (snd (Subscribe (nm_init (env_ok 70))))
   \<and> sigChan (snd (Subscribe (nm_init (env_ok 70)))) = Some 0
   \<and> signals (snd (Subscribe (nm_init (env_ok 70)))) = [0]
   \<and> signals (Unsubscribe (snd (Subscribe (nm_init (env_ok 70))))) = []
   \<and> sigChan (Unsubscribe (snd (Subscribe (nm_init (env_ok 70))))) = None
   \<and> fst (Subscribe (Unsubscribe (snd (Subscribe (nm_init (env_ok 70)))))) = Some 1
   \<and> signals (snd (Subscribe (Unsubscribe (snd (Subscribe (nm_init (env_ok 70))))))) = [1]
   \<and> heap (snd (Subscribe (Unsubscribe (snd (Subscribe (nm_init (env_ok 70)))))))
       = [Chan 10 False, Chan 10 False]"
proof -
  let ?n1 = "\<lparr>env = env_ok 70, calls = [], matches = [NetworkManagerObjectPath],
               signals = [0], heap = [Chan 10 False], sigChan = Some 0\<rparr>"
  let ?n2 = "\<lparr>env = env_ok 70, calls = [], matches = [NetworkManagerObjectPath],
               signals = [], heap = [Chan 10 False], sigChan = None\<rparr>"
  let ?n3 = "\<lparr>env = env_ok 70, calls = [],
               matches = [NetworkManagerObjectPath, NetworkManagerObjectPath],
               signals = [1], heap = [Chan 10 False, Chan 10 False], sigChan = Some 1\<rparr>"
  have s: "Subscribe (nm_init (env_ok 70)) = (Some 0, ?n1)"
    by (simp add: Subscribe_fresh nm_init_def)
  have u: "Unsubscribe ?n1 = ?n2"
    by (simp add: Unsubscribe_def conn_RemoveSignal_def)
  have t: "Subscribe ?n2 = (Some 1, ?n3)"
    by (simp add: Subscribe_fresh)
  have w: "chans_made (snd (Subscribe (nm_init (env_ok 70))))"
    by (rule chans_made_Subscribe [OF chans_made_init])
  have f: "sigChan (snd (Subscribe (nm_init (env_ok 70)))) = Some 0"
    "signals (snd (Subscribe (nm_init (env_ok 70)))) = [0]"
    "signals (Unsubscribe (snd (Subscribe (nm_init (env_ok 70))))) = []"
    "sigChan (Unsubscribe (snd (Subscribe (nm_init (env_ok 70))))) = None"
    "fst (Subscribe (Unsubscribe (snd (Subscribe (nm_init (env_ok 70)))))) = Some 1"
    "signals (snd (Subscribe (Unsubscribe (snd (Subscribe (nm_init (env_ok 70))))))) = [1]"
    "heap (snd (Subscribe (Unsubscribe (snd (Subscribe (nm_init (env_ok 70)))))))
       = [Chan 10 False, Chan 10 False]"
    by (simp_all add: s u t)
  show ?thesis
    using Unsubscribe_then_Subscribe [OF w] w f by simp
qed

text \<open>
  Claim C4 as stated fails: after \<^verbatim>\<open>Subscribe\<close> and \<^verbatim>\<open>Unsubscribe\<close> the channel that
  \<^verbatim>\<open>Subscribe\<close> returned is still open.
\<close>

theorem Unsubscribe_leaves_channel_open_counterexample:
  "fst (Subscribe (nm_init (env_ok 70))) = Some 0
   \<and> heap (Unsubscribe (snd (Subscribe (nm_init (env_ok 70))))) = [Chan 10 False]
   \<and> \<not> chan_closed (Unsubscribe (snd (Subscribe (nm_init (env_ok 70))))) 0"
  by (simp add: Subscribe_fresh nm_init_def Unsubscribe_def conn_RemoveSignal_def chan_closed_def)

section \<open>MarshalJSON\<close>

lemma MarshalJSON_state_error:
  assumes "getUint32Property_reply (env n) NetworkManagerPropertyState = Inl err"
  shows "MarshalJSON n = ((None, Some err), n\<lparr>calls := calls n @ [NetworkManagerPropertyState]\<rparr>)"
  by (simp add: MarshalJSON_def GetState_read_error [OF assms])

lemma MarshalJSON_state_ok:
  assumes "getUint32Property_reply (env n) NetworkManagerPropertyState = Inr r"
  shows "MarshalJSON n =
           (case GetDevices (snd (GetState n)) of
              ((devs, Some err), n2) \<Rightarrow> ((None, Some err), n2)
            | ((devs, None), n2) \<Rightarrow>
                (json_Marshal (env n2)
                   \<lparr>NetworkState = NmState_String (env n2) (NmState r), Devices = devs\<rparr>, n2))"
  by (simp add: MarshalJSON_def GetState_read_ok [OF assms])

text \<open>
  Claim C7. When the state read fails, \<^verbatim>\<open>MarshalJSON\<close> returns nil and that error, and
  the only request it has sent is the state read: the device enumeration is not
  attempted. When the state read succeeds and \<^verbatim>\<open>GetDevices\<close> fails, it returns nil and
  the error of \<^verbatim>\<open>GetDevices\<close>. Whenever one of the two reads fails, no bytes are returned.
\<close>

theorem MarshalJSON_fails_with_its_reads:
  "(getUint32Property_reply (env n) NetworkManagerPropertyState = Inl err
      \<longrightarrow> MarshalJSON n
            = ((None, Some err), n\<lparr>calls := calls n @ [NetworkManagerPropertyState]\<rparr>)
          \<and> snd (MarshalJSON n) = snd (GetState n))
   \<and> (getUint32Property_reply (env n) NetworkManagerPropertyState = Inr r
        \<and> snd (fst (GetDevices (snd (GetState n)))) = Some err
      \<longrightarrow> fst (MarshalJSON n) = (None, Some err))
   \<and> (snd (fst (GetState n)) \<noteq> None \<or> snd (fst (GetDevices (snd (GetState n)))) \<noteq> None
      \<longrightarrow> fst (fst (MarshalJSON n)) = None \<and> snd (fst (MarshalJSON n)) \<noteq> None)"
proof (intro conjI impI)
  assume a: "getUint32Property_reply (env n) NetworkManagerPropertyState = Inl err"
  show "MarshalJSON n = ((None, Some err), n\<lparr>calls := calls n @ [NetworkManagerPropertyState]\<rparr>)"
    by (rule MarshalJSON_state_error [OF a])
  show "snd (MarshalJSON n) = snd (GetState n)"
    by (simp add: MarshalJSON_state_error [OF a] GetState_read_error [OF a])
next
  assume a: "getUint32Property_reply (env n) NetworkManagerPropertyState = Inr r
        \<and> snd (fst (GetDevices (snd (GetState n)))) = Some err"
  then show "fst (MarshalJSON n) = (None, Some err)"
    by (cases "GetDevices (snd (GetState n))") (auto simp: MarshalJSON_state_ok)
next
  assume a: "snd (fst (GetState n)) \<noteq> None \<or> snd (fst (GetDevices (snd (GetState n)))) \<noteq> None"
  show "fst (fst (MarshalJSON n)) = None"
  proof (cases "getUint32Property_reply (env n) NetworkManagerPropertyState")
    case (Inl e)
    then show ?thesis by (simp add: MarshalJSON_state_error)
  next
    case (Inr r')
    with a have "snd (fst (GetDevices (snd (GetState n)))) \<noteq> None"
      by (simp add: GetState_read_ok)
    with Inr show ?thesis
      by (cases "GetDevices (snd (GetState n))") (auto simp: MarshalJSON_state_ok)
  qed
  show "snd (fst (MarshalJSON n)) \<noteq> None"
  proof (cases "getUint32Property_reply (env n) NetworkManagerPropertyState")
    case (Inl e)
    then show ?thesis by (simp add: MarshalJSON_state_error)
  next
    case (Inr r')
    with a have "snd (fst (GetDevices (snd (GetState n)))) \<noteq> None"
      by (simp add: GetState_read_ok)
    with Inr show ?thesis
      by (cases "GetDevices (snd (GetState n))") (auto simp: MarshalJSON_state_ok)
  qed
qed

theorem MarshalJSON_fails_with_its_reads_witness:
  "getUint32Property_reply (env (nm_init env_state_down)) NetworkManagerPropertyState
     = Inl (Error ''no reply'')
   \<and> fst (MarshalJSON (nm_init env_state_down)) = (None, Some (Error ''no reply''))
   \<and> calls (snd (MarshalJSON (nm_init env_state_down))) = [NetworkManagerPropertyState]
   \<and> NetworkManagerGetDevices \<notin> set (calls (snd (MarshalJSON (nm_init env_state_down))))
   \<and> getUint32Property_reply (env (nm_init env_devices_down)) NetworkManagerPropertyState
     = Inr 70
   \<and> snd (fst (GetDevices (snd (GetState (nm_init env_devices_down)))))
     = Some (Error ''access denied'')
   \<and> fst (MarshalJSON (nm_init env_devices_down)) = (None, Some (Error ''access denied''))
   \<and> calls (snd (MarshalJSON (nm_init env_devices_down)))
     = [NetworkManagerPropertyState, NetworkManagerGetDevices]"
proof -
  have h1: "getUint32Property_reply (env (nm_init env_state_down)) NetworkManagerPropertyState
              = Inl (Error ''no reply'')"
    by (simp add: nm_init_def env_state_down_def)
  have h2: "getUint32Property_reply (env (nm_init env_devices_down)) NetworkManagerPropertyState
              = Inr 70"
    by (simp add: nm_init_def env_devices_down_def env_ok_def)
  have g: "GetState (nm_init env_devices_down) =
             ((NmState 70, None), (nm_init env_devices_down)\<lparr>calls := [NetworkManagerPropertyState]\<rparr>)"
    using GetState_read_ok [OF h2] by (simp add: nm_init_def)
  have d: "GetDevices ((nm_init env_devices_down)\<lparr>calls := [NetworkManagerPropertyState]\<rparr>) =
             ((None, Some (Error ''access denied'')),
              (nm_init env_devices_down)\<lparr>calls := [NetworkManagerPropertyState, NetworkManagerGetDevices]\<rparr>)"
    by (simp add: GetDevices_def call_paths_def nm_init_def env_devices_down_def)
  have h3: "snd (fst (GetDevices (snd (GetState (nm_init env_devices_down)))))
              = Some (Error ''access denied'')"
    by (simp add: g d)
  have m: "calls (snd (MarshalJSON (nm_init env_devices_down)))
             = [NetworkManagerPropertyState, NetworkManagerGetDevices]"
    by (simp add: MarshalJSON_def g d)
  have c0: "calls (nm_init env_state_down) = []"
    by (simp add: nm_init_def)
  show ?thesis
    using MarshalJSON_fails_with_its_reads [of "nm_init env_state_down" "Error ''no reply''"]
      MarshalJSON_fails_with_its_reads [of "nm_init env_devices_down" "Error ''access denied''" 70]
      h1 h2 h3 m c0 names_differ
    by simp
qed

end
